theory Spec2Isabelle
  imports Complex_Main "HOL-Library.AList"
begin

section \<open>Values exchanged on the wire\<close>

text \<open>
  Both programs read their input with \<^verbatim>\<open>json.loads\<close> and build their output with
  \<^verbatim>\<open>json.dumps\<close>. A value is what \<^verbatim>\<open>json.loads\<close> returns: \<^verbatim>\<open>None\<close>, a bool, an
  int, a float (its exact finite value), a str, a list or a dict. A dict is the list of
  its items, each key once. Outgoing records are kept as the object handed to
  \<^verbatim>\<open>json.dumps\<close>.
\<close>

datatype json =
    JNull
  | JBool bool
  | JInt int
  | JFloat rat
  | JStr string
  | JList "json list"
  | JDict "(string \<times> json) list"

text \<open>\<^verbatim>\<open>msg.get(k)\<close> on a dict: the value, or \<^verbatim>\<open>None\<close> when the key is missing.\<close>

definition dict_get :: "(string \<times> json) list \<Rightarrow> string \<Rightarrow> json" where
  "dict_get m k = (case map_of m k of None \<Rightarrow> JNull | Some v \<Rightarrow> v)"

text \<open>Python truth value, as tested by \<^verbatim>\<open>if not x\<close>.\<close>

fun truthy :: "json \<Rightarrow> bool" where
  "truthy JNull = False"
| "truthy (JBool b) = b"
| "truthy (JInt i) = (i \<noteq> 0)"
| "truthy (JFloat r) = (r \<noteq> 0)"
| "truthy (JStr s) = (s \<noteq> [])"
| "truthy (JList xs) = (xs \<noteq> [])"
| "truthy (JDict m) = (m \<noteq> [])"

text \<open>\<^verbatim>\<open>isinstance(x, int)\<close>: \<^verbatim>\<open>bool\<close> is a subclass of \<^verbatim>\<open>int\<close>.\<close>

fun isinstance_int :: "json \<Rightarrow> bool" where
  "isinstance_int (JInt i) = True"
| "isinstance_int (JBool b) = True"
| "isinstance_int v = False"

text \<open>
  A value used as a dict key. Lists and dicts are unhashable (\<^verbatim>\<open>TypeError\<close>, read
  \<open>None\<close> here); numbers and bools that are equal are one and the same key.
\<close>

datatype key = KNone | KNum rat | KStr string

fun py_key :: "json \<Rightarrow> key option" where
  "py_key JNull = Some KNone"
| "py_key (JBool b) = Some (KNum (if b then 1 else 0))"
| "py_key (JInt i) = Some (KNum (of_int i))"
| "py_key (JFloat r) = Some (KNum r)"
| "py_key (JStr s) = Some (KStr s)"
| "py_key (JList xs) = None"
| "py_key (JDict m) = None"

text \<open>
  What \<^verbatim>\<open>json.loads\<close> does with a str, and what \<^verbatim>\<open>json.loads(line.decode())\<close> does with
  the bytes of a line: the strict \<^verbatim>\<open>decode\<close> raises \<^verbatim>\<open>UnicodeDecodeError\<close> on bytes that
  are not UTF-8, before the parser runs.
\<close>

datatype loads_result = JSONDecodeError | Loaded json

datatype line_result = Blank | UnicodeDecodeError | Decoded loads_result

text \<open>
  How one pass through a loop body ends: it goes on to the next record, it leaves the
  loop with \<^verbatim>\<open>break\<close>, or an exception leaves it.
\<close>

datatype outcome = Continue | Break | Raised


section \<open>The signaling server (server.py)\<close>

text \<open>
  A socket is known by its identity, a number. \<^verbatim>\<open>REGISTRY\<close> is the dict
  \<^verbatim>\<open>username -> {"conn", "ip", "udp_port"}\<close>, kept as the list of its items in insertion
  order. The state also holds the sockets the server has closed and the records handed to
  \<^verbatim>\<open>sendall\<close>, each with its socket, in order.
\<close>

record registration =
  conn :: nat
  ip :: string
  udp_port :: json

record server =
  REGISTRY :: "(key \<times> registration) list"
  closed :: "nat set"
  outbox :: "(nat \<times> json) list"

definition close :: "nat \<Rightarrow> server \<Rightarrow> server" where
  "close c s = s\<lparr>closed := insert c (closed s)\<rparr>"

text \<open>
  \<^verbatim>\<open>send_json\<close> swallows every exception: on a socket that is already closed
  \<^verbatim>\<open>sendall\<close> raises and nothing is sent.
\<close>

definition send_json :: "nat \<Rightarrow> json \<Rightarrow> server \<Rightarrow> server" where
  "send_json c obj s = (if c \<in> closed s then s else s\<lparr>outbox := outbox s @ [(c, obj)]\<rparr>)"

definition error_msg :: "string \<Rightarrow> json" where
  "error_msg e = JDict [(''action'', JStr ''error''), (''error'', JStr e)]"

definition registered_msg :: "json \<Rightarrow> json" where
  "registered_msg u = JDict [(''action'', JStr ''registered''), (''username'', u)]"

definition peer_msg :: "json \<Rightarrow> string \<Rightarrow> json \<Rightarrow> json" where
  "peer_msg pu pip pport =
     JDict [(''action'', JStr ''peer''), (''peer_username'', pu),
            (''peer_ip'', JStr pip), (''peer_port'', pport)]"

text \<open>
  \<^verbatim>\<open>handle_disconnect(username)\<close>: an unhashable username raises at
  \<^verbatim>\<open>username in REGISTRY\<close> and nothing is changed.
\<close>

definition handle_disconnect :: "json \<Rightarrow> server \<Rightarrow> server" where
  "handle_disconnect u s =
     (case py_key u of
        None \<Rightarrow> s
      | Some k \<Rightarrow>
          (case map_of (REGISTRY s) k of
             None \<Rightarrow> s
           | Some r \<Rightarrow> (close (conn r) s)\<lparr>REGISTRY := AList.delete k (REGISTRY s)\<rparr>))"

text \<open>The \<^verbatim>\<open>finally\<close> block of \<^verbatim>\<open>handle_client\<close>, for socket \<open>c\<close> and the tracked username.\<close>

definition handler_exit :: "nat \<Rightarrow> json \<Rightarrow> server \<Rightarrow> server" where
  "handler_exit c u s = (if truthy u then handle_disconnect u s else close c s)"

text \<open>
  The \<^verbatim>\<open>register\<close> branch, after validation: under the lock, close the socket of an
  entry already held under the name, then store the new entry.
\<close>

definition register_entry :: "nat \<Rightarrow> string \<Rightarrow> key \<Rightarrow> json \<Rightarrow> server \<Rightarrow> server" where
  "register_entry c a0 k port s =
     (let s1 = (case map_of (REGISTRY s) k of None \<Rightarrow> s | Some r \<Rightarrow> close (conn r) s)
      in s1\<lparr>REGISTRY := AList.update k \<lparr>conn = c, ip = a0, udp_port = port\<rparr> (REGISTRY s1)\<rparr>)"

text \<open>
  The \<^verbatim>\<open>connect\<close> branch reads both entries under one acquisition of the lock
  (\<open>connect_snapshot\<close>) and sends afterwards, outside the lock (\<open>connect_notify\<close>, on the
  state at that later time). Subscripting \<^verbatim>\<open>me\<close> when it is \<^verbatim>\<open>None\<close> raises.
\<close>

definition connect_snapshot ::
  "(key \<times> registration) list \<Rightarrow> key \<Rightarrow> key \<Rightarrow> registration option \<times> registration option" where
  "connect_snapshot reg ku kt = (map_of reg ku, map_of reg kt)"

definition connect_notify ::
  "nat \<Rightarrow> json \<Rightarrow> json \<Rightarrow> registration option \<times> registration option \<Rightarrow> server
     \<Rightarrow> outcome \<times> server" where
  "connect_notify c u target snap s =
     (case snd snap of
        None \<Rightarrow> (Continue, send_json c (error_msg ''target_not_online'') s)
      | Some other \<Rightarrow>
          (case fst snap of
             None \<Rightarrow> (Raised, s)
           | Some me \<Rightarrow>
               (Continue,
                send_json (conn other) (peer_msg u (ip me) (udp_port me))
                  (send_json (conn me) (peer_msg target (ip other) (udp_port other)) s))))"

text \<open>
  One record of the inner loop of \<^verbatim>\<open>handle_client\<close>, on socket \<open>c\<close> accepted from \<open>a\<close>,
  with \<open>u\<close> the local variable \<^verbatim>\<open>username\<close>. The result is how the pass ends, the new
  value of \<^verbatim>\<open>username\<close> and the new state. \<open>Raised\<close> is an exception that reaches
  \<^verbatim>\<open>except Exception\<close>, after which the \<^verbatim>\<open>finally\<close> block runs.
\<close>

definition process_line ::
  "nat \<Rightarrow> string \<times> nat \<Rightarrow> json \<Rightarrow> line_result \<Rightarrow> server \<Rightarrow> outcome \<times> json \<times> server" where
  "process_line c a u line s =
     (case line of
        Blank \<Rightarrow> (Continue, u, s)
      | UnicodeDecodeError \<Rightarrow> (Raised, u, s)
      | Decoded JSONDecodeError \<Rightarrow> (Continue, u, send_json c (error_msg ''bad_json'') s)
      | Decoded (Loaded msg) \<Rightarrow>
          (case msg of
             JDict m \<Rightarrow>
               (let act = dict_get m ''action'' in
                if act = JStr ''register'' then
                  (let username = dict_get m ''username'';
                       port = dict_get m ''udp_port'' in
                   if \<not> truthy username \<or> \<not> isinstance_int port
                   then (Continue, username, send_json c (error_msg ''missing_fields'') s)
                   else
                     (case py_key username of
                        None \<Rightarrow> (Raised, username, s)
                      | Some k \<Rightarrow>
                          (Continue, username,
                           send_json c (registered_msg username)
                             (register_entry c (fst a) k port s))))
                else if act = JStr ''connect'' then
                  (if \<not> truthy u
                   then (Continue, u, send_json c (error_msg ''not_registered'') s)
                   else
                     (let target = dict_get m ''target'' in
                      if \<not> truthy target
                      then (Continue, u, send_json c (error_msg ''missing_target'') s)
                      else
                        (case py_key u of
                           None \<Rightarrow> (Raised, u, s)
                         | Some ku \<Rightarrow>
                             (case py_key target of
                                None \<Rightarrow> (Raised, u, s)
                              | Some kt \<Rightarrow>
                                  (let r = connect_notify c u target
                                             (connect_snapshot (REGISTRY s) ku kt) s
                                   in (fst r, u, snd r))))))
                else (Continue, u, send_json c (error_msg ''unknown_action'') s))
           | _ \<Rightarrow> (Raised, u, s)))"

text \<open>
  The server as a whole. \<^verbatim>\<open>main\<close> accepts sockets and starts one \<^verbatim>\<open>handle_client\<close> on
  each; \<open>threads\<close> holds, for every running handler, the address it was accepted from and
  its \<^verbatim>\<open>username\<close>. Events are taken one record at a time: a socket is accepted, a
  handler takes the next record of its buffer, or a handler's \<^verbatim>\<open>recv\<close> reports the end of
  the stream or fails.
\<close>

record system =
  srv :: server
  threads :: "nat \<Rightarrow> ((string \<times> nat) \<times> json) option"
  next_conn :: nat

datatype event = Accept "string \<times> nat" | Line nat line_result | Closed nat

definition init :: system where
  "init = \<lparr>srv = \<lparr>REGISTRY = [], closed = {}, outbox = []\<rparr>,
           threads = (\<lambda>c. None), next_conn = 0\<rparr>"

definition step :: "event \<Rightarrow> system \<Rightarrow> system" where
  "step e sys =
     (case e of
        Accept a \<Rightarrow>
          sys\<lparr>threads := (threads sys)(next_conn sys \<mapsto> (a, JNull)),
              next_conn := Suc (next_conn sys)\<rparr>
      | Line c line \<Rightarrow>
          (case threads sys c of
             None \<Rightarrow> sys
           | Some (a, u) \<Rightarrow>
               (case process_line c a u line (srv sys) of
                  (Continue, u', s') \<Rightarrow> sys\<lparr>srv := s', threads := (threads sys)(c \<mapsto> (a, u'))\<rparr>
                | (_, u', s') \<Rightarrow>
                    sys\<lparr>srv := handler_exit c u' s', threads := (threads sys)(c := None)\<rparr>))
      | Closed c \<Rightarrow>
          (case threads sys c of
             None \<Rightarrow> sys
           | Some (a, u) \<Rightarrow>
               sys\<lparr>srv := handler_exit c u (srv sys), threads := (threads sys)(c := None)\<rparr>))"

fun run :: "event list \<Rightarrow> system \<Rightarrow> system" where
  "run [] sys = sys"
| "run (e # es) sys = run es (step e sys)"


section \<open>The client (client.py)\<close>

text \<open>
  The fields of \<^verbatim>\<open>PeerClient\<close> that the signaling reader and the probe burst use. The
  username is the command-line argument; the peer fields are \<^verbatim>\<open>None\<close> until a
  notification arrives. Console output of the signaling side is left out.
\<close>

definition PUNCH_COUNT :: nat where
  "PUNCH_COUNT = 12"

text \<open>Seconds.\<close>

definition PUNCH_INTERVAL :: rat where
  "PUNCH_INTERVAL = 1 / 10"

record PeerClient =
  username :: string
  peer_ip :: json
  peer_port :: json
  peer_username :: json

text \<open>
  What a thread does, in order: a call of \<^verbatim>\<open>sendto\<close> that returns (the datagram, as
  the object given to \<^verbatim>\<open>json.dumps\<close>, and its destination), a call of \<^verbatim>\<open>sendto\<close> that
  raises, a sleep, a printed line.
\<close>

datatype action =
    SendTo json "json \<times> json"
  | SendFailed json "json \<times> json"
  | Sleep rat
  | Print string

definition hello :: "string \<Rightarrow> nat \<Rightarrow> json" where
  "hello name i = JDict [(''type'', JStr ''hello''), (''from'', JStr name), (''seq'', JInt (int i))]"

text \<open>
  \<^verbatim>\<open>self.sock.sendto(payload, (host, port))\<close> raises when the host is not a str
  (\<^verbatim>\<open>TypeError\<close>), when the port is not within 0..65535 (\<^verbatim>\<open>OverflowError\<close>), and when
  the system call fails (\<open>os_fails\<close>: the name does not resolve, the network is
  unreachable, the socket has been closed).
\<close>

definition sendto_raises :: "bool \<Rightarrow> json \<times> json \<Rightarrow> bool" where
  "sendto_raises os_fails dest =
     (case dest of
        (JStr host, JInt port) \<Rightarrow> port < 0 \<or> 65535 < port \<or> os_fails
      | _ \<Rightarrow> True)"

text \<open>
  The \<^verbatim>\<open>for i in range(PUNCH_COUNT)\<close> loop of \<^verbatim>\<open>punch\<close>, from \<open>i\<close> with \<open>n\<close> rounds to
  go, and \<^verbatim>\<open>punch\<close> itself. Every round reads \<^verbatim>\<open>self.username\<close>, \<^verbatim>\<open>self.peer_ip\<close> and
  \<^verbatim>\<open>self.peer_port\<close> anew: \<open>view i\<close> is the client object as round \<open>i\<close> finds it, which
  the signaling reader may have changed since the thread was started. An exception of
  \<^verbatim>\<open>sendto\<close> is caught and printed, and the loop goes on; \<open>os_fails i\<close> says whether the
  system call of round \<open>i\<close> fails.
\<close>

fun punch_loop :: "(nat \<Rightarrow> PeerClient) \<Rightarrow> (nat \<Rightarrow> bool) \<Rightarrow> nat \<Rightarrow> nat \<Rightarrow> action list" where
  "punch_loop view os_fails i 0 = []"
| "punch_loop view os_fails i (Suc n) =
     (let payload = hello (username (view i)) i;
          dest = (peer_ip (view i), peer_port (view i))
      in (if sendto_raises (os_fails i) dest
          then [SendFailed payload dest, Print ''[UDP] punch error:'']
          else [SendTo payload dest])
         @ Sleep PUNCH_INTERVAL # punch_loop view os_fails (Suc i) n)"

definition punch :: "(nat \<Rightarrow> PeerClient) \<Rightarrow> (nat \<Rightarrow> bool) \<Rightarrow> action list" where
  "punch view os_fails =
     punch_loop view os_fails 0 PUNCH_COUNT @ [Print ''[UDP] hole punch packets sent.'']"




text \<open>
  \<^verbatim>\<open>udp_receiver\<close>. One call of \<^verbatim>\<open>recvfrom\<close> times out, fails, or returns a datagram;
  \<^verbatim>\<open>data.decode(errors="ignore")\<close> cannot fail, so a datagram is known by what
  \<^verbatim>\<open>json.loads\<close> makes of it. \<open>shown\<close> is what the loop prints for the user.
  \<open>udp_receiver\<close> runs the loop over the calls made while the stop event is not set;
  \<open>Continue\<close> says the loop is still running after them.
\<close>

datatype recv_result = Timeout | RecvError | Datagram loads_result

datatype shown = NonJson | Chat json json json | Other json | RecvFailed

definition udp_receiver_body :: "recv_result \<Rightarrow> outcome \<times> shown list" where
  "udp_receiver_body r =
     (case r of
        Timeout \<Rightarrow> (Continue, [])
      | RecvError \<Rightarrow> (Break, [RecvFailed])
      | Datagram JSONDecodeError \<Rightarrow> (Continue, [NonJson])
      | Datagram (Loaded msg) \<Rightarrow>
          (case msg of
             JDict m \<Rightarrow>
               (let mtype = dict_get m ''type'' in
                if mtype = JStr ''chat''
                then (Continue, [Chat (dict_get m ''from'') (dict_get m ''to'') (dict_get m ''msg'')])
                else if mtype = JStr ''hello'' then (Continue, [])
                else (Continue, [Other msg]))
           | _ \<Rightarrow> (Raised, [])))"

fun udp_receiver :: "recv_result list \<Rightarrow> outcome \<times> shown list" where
  "udp_receiver [] = (Continue, [])"
| "udp_receiver (r # rs) =
     (case udp_receiver_body r of
        (Continue, out) \<Rightarrow> (case udp_receiver rs of (res, out') \<Rightarrow> (res, out @ out'))
      | (res, out) \<Rightarrow> (res, out))"


fun sent :: "action list \<Rightarrow> (json \<times> json \<times> json) list" where
  "sent [] = []"
| "sent (SendTo payload dest # acts) = (payload, dest) # sent acts"
| "sent (a # acts) = sent acts"


section \<open>Scenarios\<close>

text \<open>Requests as the client writes them, and the server states the scenarios below start from.\<close>

definition register_req :: "json \<Rightarrow> json \<Rightarrow> line_result" where
  "register_req name port =
     Decoded (Loaded (JDict [(''action'', JStr ''register''), (''username'', name),
                             (''udp_port'', port)]))"

definition connect_req :: "json \<Rightarrow> line_result" where
  "connect_req name = Decoded (Loaded (JDict [(''action'', JStr ''connect''), (''target'', name)]))"

text \<open>alice registers from 1.2.3.4, then alice registers again on a second socket.\<close>

definition superseded :: system where
  "superseded =
     run [Accept (''1.2.3.4'', 1000), Line 0 (register_req (JStr ''alice'') (JInt 40000)),
          Accept (''5.6.7.8'', 2000), Line 1 (register_req (JStr ''alice'') (JInt 50000))] init"

text \<open>alice registers udp port 40000 from 1.2.3.4 and bob udp port 50000 from 5.6.7.8.\<close>

definition alice_bob :: system where
  "alice_bob =
     run [Accept (''1.2.3.4'', 1000), Line 0 (register_req (JStr ''alice'') (JInt 40000)),
          Accept (''5.6.7.8'', 2000), Line 1 (register_req (JStr ''bob'') (JInt 50000))] init"


text \<open>
  bob is registered on the second socket; the first socket has sent a \<^verbatim>\<open>register\<close> for
  alice whose \<^verbatim>\<open>udp_port\<close> is the string \<^verbatim>\<open>"40000"\<close>.
\<close>

definition half_registered :: system where
  "half_registered =
     run [Accept (''1.2.3.4'', 1000), Accept (''5.6.7.8'', 2000),
          Line 1 (register_req (JStr ''bob'') (JInt 50000)),
          Line 0 (register_req (JStr ''alice'') (JStr ''40000''))] init"

text \<open>alice alone, registered on the first socket.\<close>

definition alice_alone :: system where
  "alice_alone =
     run [Accept (''1.2.3.4'', 1000), Line 0 (register_req (JStr ''alice'') (JInt 40000))] init"

text \<open>A chat datagram, and a client that has no peer yet.\<close>

definition chat_packet :: json where
  "chat_packet = JDict [(''type'', JStr ''chat''), (''from'', JStr ''bob''), (''to'', JStr ''alice''),
                        (''ts'', JInt 0), (''msg'', JStr ''hi'')]"




text \<open>A \<^verbatim>\<open>register\<close> that names bob and has no \<^verbatim>\<open>udp_port\<close>.\<close>

definition takeover_req :: line_result where
  "takeover_req = Decoded (Loaded (JDict [(''action'', JStr ''register''), (''username'', JStr ''bob'')]))"


section \<open>Auxiliary facts\<close>

lemmas eval_defs = step_def process_line_def init_def register_req_def connect_req_def dict_get_def
  register_entry_def send_json_def registered_msg_def error_msg_def peer_msg_def close_def
  handler_exit_def handle_disconnect_def connect_notify_def connect_snapshot_def Let_def

lemma REGISTRY_send_json: "REGISTRY (send_json c obj s) = REGISTRY s"
  by (simp add: send_json_def)

lemma closed_send_json: "closed (send_json c obj s) = closed s"
  by (simp add: send_json_def)

lemma REGISTRY_close: "REGISTRY (close c s) = REGISTRY s"
  by (simp add: close_def)

lemma distinct_register_entry:
  "distinct (map fst (REGISTRY s)) \<Longrightarrow> distinct (map fst (REGISTRY (register_entry c a0 k port s)))"
  by (simp add: register_entry_def Let_def REGISTRY_close distinct_update split: option.split)

lemma distinct_handle_disconnect:
  "distinct (map fst (REGISTRY s)) \<Longrightarrow> distinct (map fst (REGISTRY (handle_disconnect u s)))"
  by (simp add: handle_disconnect_def distinct_delete split: option.split)

lemma distinct_handler_exit:
  "distinct (map fst (REGISTRY s)) \<Longrightarrow> distinct (map fst (REGISTRY (handler_exit c u s)))"
  by (simp add: handler_exit_def distinct_handle_disconnect REGISTRY_close)

lemma REGISTRY_connect_notify: "REGISTRY (snd (connect_notify c u t snap s)) = REGISTRY s"
  by (simp add: connect_notify_def REGISTRY_send_json split: option.split)

lemma distinct_process_line:
  "distinct (map fst (REGISTRY s)) \<Longrightarrow>
   distinct (map fst (REGISTRY (snd (snd (process_line c a u l s)))))"
  by (simp add: process_line_def Let_def REGISTRY_send_json REGISTRY_connect_notify
      distinct_register_entry
      split: line_result.split loads_result.split json.split option.split)

lemma distinct_step:
  assumes "distinct (map fst (REGISTRY (srv sys)))"
  shows "distinct (map fst (REGISTRY (srv (step e sys))))"
proof (cases e)
  case (Accept a)
  with assms show ?thesis by (simp add: step_def)
next
  case (Line c l)
  show ?thesis
  proof (cases "threads sys c")
    case None
    with Line assms show ?thesis by (simp add: step_def)
  next
    case (Some au)
    obtain a u where au: "au = (a, u)" by (cases au)
    obtain out u' s' where pl: "process_line c a u l (srv sys) = (out, u', s')"
      by (cases "process_line c a u l (srv sys)")
    from distinct_process_line [OF assms, of c a u l] pl
    have d: "distinct (map fst (REGISTRY s'))" by simp
    with Line Some au pl show ?thesis
      by (cases out) (simp_all add: step_def distinct_handler_exit)
  qed
next
  case (Closed c)
  with assms show ?thesis
    by (simp add: step_def distinct_handler_exit split: option.split)
qed

lemma distinct_run:
  "distinct (map fst (REGISTRY (srv sys))) \<Longrightarrow> distinct (map fst (REGISTRY (srv (run evs sys))))"
  by (induction evs arbitrary: sys) (simp_all add: distinct_step)

lemma run_append: "run (es @ es') sys = run es' (run es sys)"
  by (induction es arbitrary: sys) simp_all



lemma alice_bob_srv:
  "srv alice_bob =
     \<lparr>REGISTRY = [(KStr ''alice'', \<lparr>conn = 0, ip = ''1.2.3.4'', udp_port = JInt 40000\<rparr>),
                  (KStr ''bob'', \<lparr>conn = 1, ip = ''5.6.7.8'', udp_port = JInt 50000\<rparr>)],
      closed = {},
      outbox = [(0, registered_msg (JStr ''alice'')), (1, registered_msg (JStr ''bob''))]\<rparr>"
  by (simp add: alice_bob_def eval_defs)

lemma alice_bob_threads:
  "threads alice_bob 0 = Some ((''1.2.3.4'', 1000), JStr ''alice'')"
  "threads alice_bob 1 = Some ((''5.6.7.8'', 2000), JStr ''bob'')"
  by (simp_all add: alice_bob_def eval_defs)

lemma half_registered_srv:
  "srv half_registered =
     \<lparr>REGISTRY = [(KStr ''bob'', \<lparr>conn = 1, ip = ''5.6.7.8'', udp_port = JInt 50000\<rparr>)],
      closed = {},
      outbox = [(1, registered_msg (JStr ''bob'')), (0, error_msg ''missing_fields'')]\<rparr>"
  by (simp add: half_registered_def eval_defs)

lemma half_registered_threads:
  "threads half_registered 0 = Some ((''1.2.3.4'', 1000), JStr ''alice'')"
  by (simp add: half_registered_def eval_defs)

lemma alice_alone_srv:
  "srv alice_alone =
     \<lparr>REGISTRY = [(KStr ''alice'', \<lparr>conn = 0, ip = ''1.2.3.4'', udp_port = JInt 40000\<rparr>)],
      closed = {}, outbox = [(0, registered_msg (JStr ''alice''))]\<rparr>"
  by (simp add: alice_alone_def eval_defs)

lemma alice_alone_threads:
  "threads alice_alone 0 = Some ((''1.2.3.4'', 1000), JStr ''alice'')"
  by (simp add: alice_alone_def eval_defs)


lemma only_entry:
  "distinct (map fst xs) \<Longrightarrow> map_of xs k = Some v \<Longrightarrow> filter (\<lambda>e. fst e = k) xs = [(k, v)]"
proof (induction xs)
  case Nil
  then show ?case by simp
next
  case (Cons x xs)
  show ?case
  proof (cases "fst x = k")
    case True
    with Cons.prems have "k \<notin> fst ` set xs" and "x = (k, v)"
      by (auto simp: prod_eq_iff)
    then have "filter (\<lambda>e. fst e = k) xs = []"
      by (auto simp: filter_empty_conv)
    with True \<open>x = (k, v)\<close> show ?thesis by simp
  next
    case False
    with Cons show ?thesis by (cases x) simp
  qed
qed












section \<open>The registry\<close>

text \<open>
  C3. Whatever sockets are accepted and whatever records and stream ends the handlers
  see, \<^verbatim>\<open>REGISTRY\<close> never holds two entries for one identity. When a handler takes a valid
  \<^verbatim>\<open>register\<close> for an identity that already has an entry, the socket of that entry is
  closed and the one entry left for the identity is the new one: this socket, the address
  the server accepted it from, and the port of the request.
\<close>

theorem registry_one_entry_per_identity:
  "distinct (map fst (REGISTRY (srv (run evs init))))
   \<and> (threads (run evs init) c = Some (a, u)
        \<and> dict_get m ''action'' = JStr ''register''
        \<and> truthy (dict_get m ''username'') \<and> isinstance_int (dict_get m ''udp_port'')
        \<and> py_key (dict_get m ''username'') = Some k
        \<and> map_of (REGISTRY (srv (run evs init))) k = Some prior
      \<longrightarrow> conn prior \<in> closed (srv (run (evs @ [Line c (Decoded (Loaded (JDict m)))]) init))
        \<and> filter (\<lambda>e. fst e = k)
             (REGISTRY (srv (run (evs @ [Line c (Decoded (Loaded (JDict m)))]) init)))
            = [(k, \<lparr>conn = c, ip = fst a, udp_port = dict_get m ''udp_port''\<rparr>)])"
proof (intro conjI impI)
  show d: "distinct (map fst (REGISTRY (srv (run evs init))))" for evs
    by (rule distinct_run) (simp add: init_def)
  assume h: "threads (run evs init) c = Some (a, u)
        \<and> dict_get m ''action'' = JStr ''register''
        \<and> truthy (dict_get m ''username'') \<and> isinstance_int (dict_get m ''udp_port'')
        \<and> py_key (dict_get m ''username'') = Some k
        \<and> map_of (REGISTRY (srv (run evs init))) k = Some prior"
  let ?sys = "run evs init"
  let ?new = "\<lparr>conn = c, ip = fst a, udp_port = dict_get m ''udp_port''\<rparr>"
  let ?sys' = "run (evs @ [Line c (Decoded (Loaded (JDict m)))]) init"
  have r: "?sys' = step (Line c (Decoded (Loaded (JDict m)))) ?sys"
    by (simp add: run_append)
  from h have s: "srv ?sys' = send_json c (registered_msg (dict_get m ''username''))
                     (register_entry c (fst a) k (dict_get m ''udp_port'') (srv ?sys))"
    by (simp add: r step_def process_line_def Let_def)
  from h show "conn prior \<in> closed (srv ?sys')"
    by (simp add: s closed_send_json register_entry_def close_def)
  from h have "map_of (REGISTRY (srv ?sys')) k = Some ?new"
    by (simp add: s REGISTRY_send_json register_entry_def REGISTRY_close update_conv')
  with d [of "evs @ [Line c (Decoded (Loaded (JDict m)))]"]
  show "filter (\<lambda>e. fst e = k) (REGISTRY (srv ?sys')) = [(k, ?new)]"
    by (rule only_entry)
qed

theorem registry_one_entry_per_identity_witness:
  "distinct (map fst (REGISTRY (srv superseded)))
   \<and> 0 \<in> closed (srv superseded)
   \<and> filter (\<lambda>e. fst e = KStr ''alice'') (REGISTRY (srv superseded))
       = [(KStr ''alice'', \<lparr>conn = 1, ip = ''5.6.7.8'', udp_port = JInt 50000\<rparr>)]"
proof -
  let ?evs = "[Accept (''1.2.3.4'', 1000), Line 0 (register_req (JStr ''alice'') (JInt 40000)),
                Accept (''5.6.7.8'', 2000)]"
  let ?m = "[(''action'', JStr ''register''), (''username'', JStr ''alice''), (''udp_port'', JInt 50000)]"
  have t: "threads (run ?evs init) 1 = Some ((''5.6.7.8'', 2000), JNull)"
    by (simp add: eval_defs)
  have p: "map_of (REGISTRY (srv (run ?evs init))) (KStr ''alice'')
             = Some \<lparr>conn = 0, ip = ''1.2.3.4'', udp_port = JInt 40000\<rparr>"
    by (simp add: eval_defs)
  have e: "run (?evs @ [Line 1 (Decoded (Loaded (JDict ?m)))]) init = superseded"
    by (simp add: superseded_def register_req_def)
  from registry_one_entry_per_identity [of "?evs @ [Line 1 (Decoded (Loaded (JDict ?m)))]"]
  have "distinct (map fst (REGISTRY (srv superseded)))"
    unfolding e by simp
  moreover
  from registry_one_entry_per_identity [of ?evs 1 "(''5.6.7.8'', 2000)" JNull ?m "KStr ''alice''"
      "\<lparr>conn = 0, ip = ''1.2.3.4'', udp_port = JInt 40000\<rparr>"] t p
  have "0 \<in> closed (srv superseded)
   \<and> filter (\<lambda>e. fst e = KStr ''alice'') (REGISTRY (srv superseded))
       = [(KStr ''alice'', \<lparr>conn = 1, ip = ''5.6.7.8'', udp_port = JInt 50000\<rparr>)]"
    unfolding e by (simp add: dict_get_def)
  ultimately show ?thesis by simp
qed

text \<open>
  C9 fails on the code for a \<^verbatim>\<open>udp_port\<close> that is a JSON boolean. The guard
  \<^verbatim>\<open>not isinstance(udp_port, int)\<close> is meant to refuse what is not an integer, and
  \<^verbatim>\<open>bool\<close> is a subclass of \<^verbatim>\<open>int\<close>:
  \<^verbatim>\<open>{"action":"register","username":"alice","udp_port":true}\<close> is not refused with
  \<^verbatim>\<open>missing_fields\<close>; the entry is stored with \<^verbatim>\<open>udp_port\<close> \<^verbatim>\<open>True\<close> and the reply is
  \<^verbatim>\<open>registered\<close>.
\<close>

theorem register_accepts_boolean_port:
  "process_line 0 (''1.2.3.4'', 1000) JNull (register_req (JStr ''alice'') (JBool True))
      \<lparr>REGISTRY = [], closed = {}, outbox = []\<rparr>
     = (Continue, JStr ''alice'',
        \<lparr>REGISTRY = [(KStr ''alice'', \<lparr>conn = 0, ip = ''1.2.3.4'', udp_port = JBool True\<rparr>)],
         closed = {},
         outbox = [(0, JDict [(''action'', JStr ''registered''), (''username'', JStr ''alice'')])]\<rparr>)"
  by (simp add: eval_defs)

theorem register_accepts_boolean_port_witness:
  "map_of (REGISTRY (snd (snd (process_line 0 (''1.2.3.4'', 1000) JNull
             (register_req (JStr ''alice'') (JBool True))
             \<lparr>REGISTRY = [], closed = {}, outbox = []\<rparr>)))) (KStr ''alice'')
     = Some \<lparr>conn = 0, ip = ''1.2.3.4'', udp_port = JBool True\<rparr>
   \<and> (0, error_msg ''missing_fields'')
        \<notin> set (outbox (snd (snd (process_line 0 (''1.2.3.4'', 1000) JNull
                    (register_req (JStr ''alice'') (JBool True))
                    \<lparr>REGISTRY = [], closed = {}, outbox = []\<rparr>))))"
  using register_accepts_boolean_port by (simp add: error_msg_def)

text \<open>
  What the \<^verbatim>\<open>register\<close> branch does with every request, the guard taken as it is
  written: a missing or falsy username, or a \<^verbatim>\<open>udp_port\<close> that fails
  \<^verbatim>\<open>isinstance(udp_port, int)\<close>, is answered with \<^verbatim>\<open>missing_fields\<close> and changes nothing
  else. A request that passes, with a hashable username, stores this socket, the address
  the server accepted the socket from and the \<^verbatim>\<open>udp_port\<close> of the request; the socket of
  an entry replaced is closed; and \<^verbatim>\<open>registered\<close> with the username is sent on this
  socket unless it is closed by then.
\<close>

lemma register_validates_and_stores:
  assumes "dict_get m ''action'' = JStr ''register''"
    and "res = process_line c a u (Decoded (Loaded (JDict m))) s"
  shows "(\<not> truthy (dict_get m ''username'') \<or> \<not> isinstance_int (dict_get m ''udp_port'') \<longrightarrow>
            res = (Continue, dict_get m ''username'',
                   if c \<in> closed s then s
                   else s\<lparr>outbox := outbox s @ [(c, error_msg ''missing_fields'')]\<rparr>))
       \<and> (truthy (dict_get m ''username'') \<and> isinstance_int (dict_get m ''udp_port'')
            \<and> py_key (dict_get m ''username'') = Some k \<longrightarrow>
            fst res = Continue \<and> fst (snd res) = dict_get m ''username''
            \<and> REGISTRY (snd (snd res)) = AList.update k
                  \<lparr>conn = c, ip = fst a, udp_port = dict_get m ''udp_port''\<rparr> (REGISTRY s)
            \<and> map_of (REGISTRY (snd (snd res))) k
                  = Some \<lparr>conn = c, ip = fst a, udp_port = dict_get m ''udp_port''\<rparr>
            \<and> closed (snd (snd res)) = (case map_of (REGISTRY s) k of
                                 None \<Rightarrow> closed s | Some r \<Rightarrow> insert (conn r) (closed s))
            \<and> outbox (snd (snd res)) = (if c \<in> closed (snd (snd res)) then outbox s
                              else outbox s @ [(c, registered_msg (dict_get m ''username''))]))"
  using assms
  by (auto simp add: process_line_def send_json_def register_entry_def Let_def close_def
      update_conv' split: option.split)

lemma register_validates_and_stores_example:
  "process_line 0 (''1.2.3.4'', 1000) JNull (register_req JNull (JInt 40000))
      \<lparr>REGISTRY = [], closed = {}, outbox = []\<rparr>
     = (Continue, JNull,
        \<lparr>REGISTRY = [], closed = {}, outbox = [(0, error_msg ''missing_fields'')]\<rparr>)
   \<and> process_line 0 (''1.2.3.4'', 1000) JNull (register_req (JStr ''alice'') (JStr ''40000''))
      \<lparr>REGISTRY = [], closed = {}, outbox = []\<rparr>
     = (Continue, JStr ''alice'',
        \<lparr>REGISTRY = [], closed = {}, outbox = [(0, error_msg ''missing_fields'')]\<rparr>)
   \<and> REGISTRY (snd (snd (process_line 0 (''1.2.3.4'', 1000) JNull
         (register_req (JStr ''alice'') (JInt 40000)) \<lparr>REGISTRY = [], closed = {}, outbox = []\<rparr>)))
       = [(KStr ''alice'', \<lparr>conn = 0, ip = ''1.2.3.4'', udp_port = JInt 40000\<rparr>)]
   \<and> outbox (snd (snd (process_line 0 (''1.2.3.4'', 1000) JNull
         (register_req (JStr ''alice'') (JInt 40000)) \<lparr>REGISTRY = [], closed = {}, outbox = []\<rparr>)))
       = [(0, registered_msg (JStr ''alice''))]"
  using
    register_validates_and_stores [of "[(''action'', JStr ''register''), (''username'', JNull), (''udp_port'', JInt 40000)]"
      _ 0 "(''1.2.3.4'', 1000)" JNull "\<lparr>REGISTRY = [], closed = {}, outbox = []\<rparr>" KNone, OF _ refl]
    register_validates_and_stores [of "[(''action'', JStr ''register''), (''username'', JStr ''alice''), (''udp_port'', JStr ''40000'')]"
      _ 0 "(''1.2.3.4'', 1000)" JNull "\<lparr>REGISTRY = [], closed = {}, outbox = []\<rparr>" KNone, OF _ refl]
    register_validates_and_stores [of "[(''action'', JStr ''register''), (''username'', JStr ''alice''), (''udp_port'', JInt 40000)]"
      _ 0 "(''1.2.3.4'', 1000)" JNull "\<lparr>REGISTRY = [], closed = {}, outbox = []\<rparr>" "KStr ''alice''", OF _ refl]
  by (simp add: register_req_def dict_get_def)

text \<open>
  C10. When a handler takes a \<^verbatim>\<open>register\<close> request, its \<^verbatim>\<open>username\<close> afterwards is the
  \<^verbatim>\<open>username\<close> field of the request (\<^verbatim>\<open>None\<close> when it is missing), whether the request
  passes validation or not. If the handler goes on, that is the name its later requests
  act as, and the name whose entry its cleanup removes when the stream ends. A request
  refused for its fields changes the name and leaves \<^verbatim>\<open>REGISTRY\<close> as it was. In the
  witness alice's handler, after a refused \<^verbatim>\<open>register\<close> naming bob, removes bob's entry
  and closes bob's socket when it ends, and alice's entry stays.
\<close>

theorem register_sets_tracked_username:
  assumes "threads sys c = Some (a, u)"
    and "dict_get m ''action'' = JStr ''register''"
    and "req = Decoded (Loaded (JDict m))"
  shows "fst (snd (process_line c a u req (srv sys))) = dict_get m ''username''
    \<and> (fst (process_line c a u req (srv sys)) = Continue \<longrightarrow>
         threads (step (Line c req) sys) c = Some (a, dict_get m ''username'')
         \<and> srv (step (Closed c) (step (Line c req) sys))
             = handler_exit c (dict_get m ''username'') (srv (step (Line c req) sys)))
    \<and> (\<not> truthy (dict_get m ''username'') \<or> \<not> isinstance_int (dict_get m ''udp_port'') \<longrightarrow>
         fst (process_line c a u req (srv sys)) = Continue
         \<and> REGISTRY (srv (step (Line c req) sys)) = REGISTRY (srv sys))"
proof -
  obtain out u' s' where pl: "process_line c a u req (srv sys) = (out, u', s')"
    by (cases "process_line c a u req (srv sys)")
  have u': "u' = dict_get m ''username''"
    using pl assms(2,3) by (auto simp: process_line_def Let_def split: option.splits if_splits)
  have cont: "out = Continue \<Longrightarrow>
         threads (step (Line c req) sys) c = Some (a, dict_get m ''username'')
         \<and> srv (step (Closed c) (step (Line c req) sys))
             = handler_exit c (dict_get m ''username'') (srv (step (Line c req) sys))"
    using assms(1) pl u' by (simp add: step_def)
  have bad: "\<not> truthy (dict_get m ''username'') \<or> \<not> isinstance_int (dict_get m ''udp_port'')
       \<Longrightarrow> out = Continue \<and> REGISTRY s' = REGISTRY (srv sys)"
    using pl assms(2,3) by (auto simp: process_line_def Let_def REGISTRY_send_json)
  from bad assms(1) pl
  have bad': "\<not> truthy (dict_get m ''username'') \<or> \<not> isinstance_int (dict_get m ''udp_port'')
       \<Longrightarrow> out = Continue \<and> REGISTRY (srv (step (Line c req) sys)) = REGISTRY (srv sys)"
    by (simp add: step_def)
  from u' cont bad' show ?thesis by (simp add: pl)
qed

theorem register_sets_tracked_username_witness:
  "threads (step (Line 0 takeover_req) alice_bob) 0 = Some ((''1.2.3.4'', 1000), JStr ''bob'')
   \<and> REGISTRY (srv (step (Line 0 takeover_req) alice_bob)) = REGISTRY (srv alice_bob)
   \<and> REGISTRY (srv (step (Closed 0) (step (Line 0 takeover_req) alice_bob)))
       = [(KStr ''alice'', \<lparr>conn = 0, ip = ''1.2.3.4'', udp_port = JInt 40000\<rparr>)]
   \<and> closed (srv (step (Closed 0) (step (Line 0 takeover_req) alice_bob))) = {1}"
proof -
  let ?m = "[(''action'', JStr ''register''), (''username'', JStr ''bob'')]"
  have pl: "process_line 0 (''1.2.3.4'', 1000) (JStr ''alice'') takeover_req (srv alice_bob)
              = (Continue, JStr ''bob'', send_json 0 (error_msg ''missing_fields'') (srv alice_bob))"
    by (simp add: takeover_req_def process_line_def dict_get_def)
  from register_sets_tracked_username [OF alice_bob_threads(1), of ?m takeover_req]
  have t: "threads (step (Line 0 takeover_req) alice_bob) 0 = Some ((''1.2.3.4'', 1000), JStr ''bob'')"
    and x: "srv (step (Closed 0) (step (Line 0 takeover_req) alice_bob))
             = handler_exit 0 (JStr ''bob'') (srv (step (Line 0 takeover_req) alice_bob))"
    and r: "REGISTRY (srv (step (Line 0 takeover_req) alice_bob)) = REGISTRY (srv alice_bob)"
    by (simp_all add: takeover_req_def dict_get_def pl [unfolded takeover_req_def])
  have s: "srv (step (Line 0 takeover_req) alice_bob)
             = send_json 0 (error_msg ''missing_fields'') (srv alice_bob)"
    using alice_bob_threads(1) pl by (simp add: step_def)
  show ?thesis
    by (simp add: t r x s alice_bob_srv send_json_def handler_exit_def handle_disconnect_def close_def)
qed


section \<open>Pairing\<close>





text \<open>
  C4 fails on the code. In \<open>half_registered\<close> the handler of the first socket tracks the
  username alice, which has no entry in \<^verbatim>\<open>REGISTRY\<close>. Its \<^verbatim>\<open>connect\<close> to bob, who is
  registered, is not answered with \<^verbatim>\<open>not_registered\<close>: \<^verbatim>\<open>me\<close> is \<^verbatim>\<open>None\<close>, subscripting it
  raises, the handler ends, and nothing is sent.
\<close>

theorem connect_without_entry_raises:
  "threads half_registered 0 = Some ((''1.2.3.4'', 1000), JStr ''alice'')
   \<and> map_of (REGISTRY (srv half_registered)) (KStr ''alice'') = None
   \<and> process_line 0 (''1.2.3.4'', 1000) (JStr ''alice'') (connect_req (JStr ''bob'')) (srv half_registered)
       = (Raised, JStr ''alice'', srv half_registered)
   \<and> threads (step (Line 0 (connect_req (JStr ''bob''))) half_registered) 0 = None
   \<and> outbox (srv (step (Line 0 (connect_req (JStr ''bob''))) half_registered))
       = [(1, registered_msg (JStr ''bob'')), (0, error_msg ''missing_fields'')]"
  by (simp add: half_registered_srv half_registered_threads step_def process_line_def connect_req_def
      dict_get_def connect_notify_def connect_snapshot_def handler_exit_def handle_disconnect_def)

theorem connect_without_entry_raises_witness:
  "fst (process_line 0 (''1.2.3.4'', 1000) (JStr ''alice'') (connect_req (JStr ''bob''))
          (srv half_registered)) = Raised
   \<and> (0, error_msg ''not_registered'')
        \<notin> set (outbox (srv (step (Line 0 (connect_req (JStr ''bob''))) half_registered)))"
  using connect_without_entry_raises by (simp add: error_msg_def registered_msg_def)


section \<open>The end of a handler\<close>





section \<open>Records that cannot be read\<close>

text \<open>
  C6 fails on the code for a line whose bytes are not UTF-8: \<^verbatim>\<open>line.decode()\<close> raises
  \<^verbatim>\<open>UnicodeDecodeError\<close>, which \<^verbatim>\<open>except json.JSONDecodeError\<close> does not catch. With alice
  registered on the socket, no \<^verbatim>\<open>bad_json\<close> record is sent, the handler ends, and its
  cleanup removes alice's entry and closes the socket.
\<close>

theorem undecodable_line_ends_handler:
  "process_line 0 (''1.2.3.4'', 1000) (JStr ''alice'') UnicodeDecodeError (srv alice_alone)
     = (Raised, JStr ''alice'', srv alice_alone)
   \<and> threads (step (Line 0 UnicodeDecodeError) alice_alone) 0 = None
   \<and> srv (step (Line 0 UnicodeDecodeError) alice_alone)
       = \<lparr>REGISTRY = [], closed = {0}, outbox = [(0, registered_msg (JStr ''alice''))]\<rparr>"
  by (simp add: alice_alone_srv alice_alone_threads step_def process_line_def
      handler_exit_def handle_disconnect_def close_def)

theorem undecodable_line_ends_handler_witness:
  "fst (process_line 0 (''1.2.3.4'', 1000) (JStr ''alice'') UnicodeDecodeError (srv alice_alone))
     = Raised
   \<and> REGISTRY (srv (step (Line 0 UnicodeDecodeError) alice_alone)) = []
   \<and> (0, error_msg ''bad_json'')
        \<notin> set (outbox (srv (step (Line 0 UnicodeDecodeError) alice_alone)))"
  using undecodable_line_ends_handler by (simp add: error_msg_def registered_msg_def)

text \<open>A line that decodes and does not parse is answered with \<^verbatim>\<open>bad_json\<close>, and that is all.\<close>

lemma bad_json_reply:
  "process_line c a u (Decoded JSONDecodeError) s
     = (Continue, u, if c \<in> closed s then s else s\<lparr>outbox := outbox s @ [(c, error_msg ''bad_json'')]\<rparr>)"
  by (simp add: process_line_def send_json_def)


section \<open>The probe burst\<close>




section \<open>The UDP receive loop\<close>

text \<open>
  C5 fails on the code for a datagram that is valid JSON and not an object, such as
  \<^verbatim>\<open>1\<close>: \<^verbatim>\<open>msg.get("type")\<close> raises \<^verbatim>\<open>AttributeError\<close>, which nothing in the loop
  catches. The loop ends there, and a chat datagram that arrives afterwards is never
  shown.
\<close>

theorem non_object_datagram_ends_receiver:
  "udp_receiver_body (Datagram (Loaded (JInt 1))) = (Raised, [])
   \<and> udp_receiver [Datagram (Loaded (JInt 1)), Datagram (Loaded chat_packet)] = (Raised, [])"
  by (simp add: udp_receiver_body_def)

text \<open>A timeout, a datagram that does not parse and a datagram that is an object keep the loop running.\<close>

lemma udp_receiver_body_continues:
  "fst (udp_receiver_body Timeout) = Continue"
  "fst (udp_receiver_body (Datagram JSONDecodeError)) = Continue"
  "fst (udp_receiver_body (Datagram (Loaded (JDict m)))) = Continue"
  by (simp_all add: udp_receiver_body_def Let_def)

end
